theory Spec2Isabelle
  imports Complex_Main "HOL-Library.Char_ord" "HOL-Library.List_Lexorder"
begin

section \<open>Tables, cells and errors\<close>

text \<open>
  The fetchers and the analyzer work on pandas tables. A cell is
  \<^item> \<open>NA\<close>: a missing value as pandas stores it (NaN, NaT), which is also what
    \<open>read_csv\<close> makes of an empty field;
  \<^item> \<open>PyNone\<close>: Python's None, held as an object: a JSON null of the search API or
    of Supabase, or a key that a hit does not have;
  \<^item> \<open>Str s\<close>: a text, the list of its characters, each a code point below 256;
  \<^item> \<open>Ts t\<close>: a timestamp without time zone;
  \<^item> \<open>TsTz t\<close>: a timestamp with a UTC offset.
  A date text that pandas can parse is written as the timestamp it parses to, with or
  without offset as the text has it; a cell \<open>Str s\<close> in a date column is a text that
  does not parse. Timestamps and durations are counted in microseconds, the resolution
  of Python's datetime.
\<close>

datatype cell = NA | PyNone | Str string | Ts int | TsTz int

type_synonym row = "string \<Rightarrow> cell"

record dataframe =
  columns :: "string list"
  rows :: "row list"

datatype error = KeyError | TypeError | ValueError | AttributeError | HTTPError | OtherException

definition day :: int where
  "day = 86400000000"

text \<open>\<open>timedelta(days=n)\<close>.\<close>

definition timedelta_days :: "int \<Rightarrow> int" where
  "timedelta_days n = n * day"


text \<open>\<open>DataFrame.empty\<close>: one of the two axes has length zero.\<close>

definition df_empty :: "dataframe \<Rightarrow> bool" where
  "df_empty df = (rows df = [] \<or> columns df = [])"


text \<open>
  \<open>pd.to_datetime(df[col])\<close> written back to \<open>df[col]\<close>: a timestamp stays, a
  null becomes NaT. Without \<open>errors="coerce"\<close> a text that is no date raises; with it
  the cell becomes NaT.
\<close>

definition coerce_cell :: "cell \<Rightarrow> cell" where
  "coerce_cell c = (case c of Ts t \<Rightarrow> Ts t | TsTz t \<Rightarrow> TsTz t | _ \<Rightarrow> NA)"

definition is_text :: "cell \<Rightarrow> bool" where
  "is_text c = (case c of Str s \<Rightarrow> True | _ \<Rightarrow> False)"

definition to_datetime_strict :: "string \<Rightarrow> dataframe \<Rightarrow> error + dataframe" where
  "to_datetime_strict col df =
     (if col \<notin> set (columns df) then Inl KeyError
      else if list_ex (\<lambda>r. is_text (r col)) (rows df) then Inl ValueError
      else Inr (df\<lparr>rows := map (\<lambda>r. r(col := coerce_cell (r col))) (rows df)\<rparr>))"

definition to_datetime_coerce :: "string \<Rightarrow> dataframe \<Rightarrow> error + dataframe" where
  "to_datetime_coerce col df =
     (if col \<notin> set (columns df) then Inl KeyError
      else Inr (df\<lparr>rows := map (\<lambda>r. r(col := coerce_cell (r col))) (rows df)\<rparr>))"

text \<open>
  Comparison of a date column with the bounds of the window, which are datetimes
  without time zone. A cell that is a text, a None or a timestamp with offset makes the
  comparison of the column raise TypeError; NaT compares false.
\<close>

definition not_comparable :: "cell \<Rightarrow> bool" where
  "not_comparable c = (case c of Str s \<Rightarrow> True | TsTz t \<Rightarrow> True | PyNone \<Rightarrow> True | _ \<Rightarrow> False)"

definition in_window :: "int \<Rightarrow> int \<Rightarrow> cell \<Rightarrow> bool" where
  "in_window lo hi c = (case c of Ts t \<Rightarrow> lo \<le> t \<and> t \<le> hi | _ \<Rightarrow> False)"

subsection \<open>Strings\<close>

text \<open>
  The characters below 256 for which \<open>str.isspace\<close> holds, which are the ones that
  \<open>str.strip()\<close> trims: the ASCII white space, the separators from 0x1C to 0x1F, the
  next-line character 0x85 and the no-break space 0xA0.
\<close>

definition is_space :: "char \<Rightarrow> bool" where
  "is_space c = (c \<in> set [CHR 0x09, CHR 0x0A, CHR 0x0B, CHR 0x0C, CHR 0x0D,
                           CHR 0x1C, CHR 0x1D, CHR 0x1E, CHR 0x1F, CHR 0x20,
                           CHR 0x85, CHR 0xA0])"

definition strip :: "string \<Rightarrow> string" where
  "strip s = rev (dropWhile is_space (rev (dropWhile is_space s)))"

text \<open>
  \<open>str.lower()\<close> on a character below 256: the capital letters are A to Z and 0xC0
  to 0xDE without the multiplication sign 0xD7, and the small letter is 32 further.
\<close>

definition lower_char :: "char \<Rightarrow> char" where
  "lower_char c =
     (if (CHR ''A'' \<le> c \<and> c \<le> CHR ''Z'') \<or> (CHR 0xC0 \<le> c \<and> c \<le> CHR 0xDE \<and> c \<noteq> CHR 0xD7)
      then char_of (of_char c + (32::nat)) else c)"

definition lower :: "string \<Rightarrow> string" where
  "lower s = map lower_char s"

text \<open>
  The \<open>.str\<close> accessor of a column raises AttributeError unless pandas takes the column
  for one of texts: it has no rows, or a text among its cells, or nothing but nulls with
  a None among them (a column of NaN only, as \<open>read_csv\<close> makes of an empty column,
  is a column of floats).
\<close>

definition str_accessor :: "string \<Rightarrow> row list \<Rightarrow> bool" where
  "str_accessor col rs =
     (rs = [] \<or> list_ex (\<lambda>r. is_text (r col)) rs \<or>
      (list_all (\<lambda>r. r col = NA \<or> r col = PyNone) rs \<and> list_ex (\<lambda>r. r col = PyNone) rs))"

text \<open>
  The narrative mask of both fetchers:
  \<open>df[col].notna() & (df[col].str.strip() != '')\<close>. The \<open>.str\<close> accessor gives
  NaN on a cell that is no text, and NaN differs from the empty text.
\<close>

definition notna :: "cell \<Rightarrow> bool" where
  "notna c = (c \<noteq> NA \<and> c \<noteq> PyNone)"

definition str_strip :: "cell \<Rightarrow> cell" where
  "str_strip c = (case c of Str s \<Rightarrow> Str (strip s) | _ \<Rightarrow> NA)"

definition narrative_mask :: "cell \<Rightarrow> bool" where
  "narrative_mask c = (notna c \<and> str_strip c \<noteq> Str '''')"

subsection \<open>Exclusion policy\<close>

definition credit_exclusions :: "string list" where
  "credit_exclusions =
     [''Credit reporting, credit repair services, or other personal consumer reports'',
      ''Credit reporting'',
      ''Credit repair services'',
      ''Other personal consumer reports'']"

text \<open>\<open>df[col].isin(self.credit_exclusions)\<close> on one cell.\<close>

definition isin_exclusions :: "cell \<Rightarrow> bool" where
  "isin_exclusions c = (case c of Str s \<Rightarrow> s \<in> set credit_exclusions | _ \<Rightarrow> False)"

abbreviation narrative_col :: string where
  "narrative_col \<equiv> ''Consumer complaint narrative''"

section \<open>Configuration read from the environment\<close>

text \<open>An integer option of the environment: not set, set to a text \<open>int()\<close> rejects, or a number.\<close>

datatype env_int = Unset | Invalid | Parsed int

text \<open>\<open>str(os.environ.get("LITE_MODE", dflt)).lower() in ("1", "true", "yes")\<close>.\<close>

definition lite_mode_env :: "string \<Rightarrow> string option \<Rightarrow> bool" where
  "lite_mode_env dflt v =
     (lower (case v of None \<Rightarrow> dflt | Some s \<Rightarrow> s) \<in> set [''1'', ''true'', ''yes''])"

record fetcher =
  start_date :: int
  end_date :: int
  lite_mode :: bool

record search_fetcher = fetcher +
  max_records :: int
  use_cache :: bool

section \<open>real\_data\_fetcher\_lite.RealDataFetcher: the window\<close>

text \<open>
  The window of \<open>RealDataFetcher.__init__\<close>, as the pair of \<open>start_date\<close> and
  \<open>end_date\<close>, from the clock and the variable \<open>MONTHS_WINDOW\<close>.
\<close>

definition lite_window :: "int \<Rightarrow> env_int \<Rightarrow> int \<times> int" where
  "lite_window now months_window =
     (let months = (case months_window of Unset \<Rightarrow> 4 | Invalid \<Rightarrow> 4 | Parsed m \<Rightarrow> m);
          months = max 1 (min months 12);
          end_d = now;
          start_d = end_d - timedelta_days (30 * months)
      in (start_d, end_d))"

text \<open>\<open>RealDataFetcher.__init__\<close>, with the clock and the two environment variables as arguments.\<close>

definition RealDataFetcher_init :: "int \<Rightarrow> env_int \<Rightarrow> string option \<Rightarrow> fetcher" where
  "RealDataFetcher_init now months_window lite_env =
     \<lparr>start_date = fst (lite_window now months_window),
      end_date = snd (lite_window now months_window),
      lite_mode = lite_mode_env ''0'' lite_env\<rparr>"

section \<open>real\_data\_fetcher\_search.SearchAPIRealDataFetcher\<close>

text \<open>The window of \<open>SearchAPIRealDataFetcher.__init__(months, ...)\<close>.\<close>

definition search_window :: "int \<Rightarrow> int \<Rightarrow> int \<times> int" where
  "search_window now months =
     (let months = max 1 (min months 3);
          end_d = now;
          start_d = end_d - timedelta_days (30 * months)
      in (start_d, end_d))"


subsection \<open>Paging\<close>

text \<open>
  One GET of the search endpoint. The provider is a function of the number of requests
  made before and of the request; an answer is status 400, another error status (on which
  \<open>raise_for_status\<close> raises), a failure of the request itself or of decoding its
  body, or the list of hits of the body, each hit being its \<open>_source\<close> dictionary.
\<close>

record request =
  date_received_min :: int
  date_received_max :: int
  size :: int
  frm :: int
  has_narrative :: bool

datatype response = Status_400 | Status_error | Request_failed | Hits "row list"

type_synonym provider = "nat \<Rightarrow> request \<Rightarrow> response"

text \<open>How the generator ended: by which \<open>break\<close>, or by which exception.\<close>

datatype page_end = Limit_warned | Stopped_400 | No_hits | Last_page | Raised error

record paging =
  requests :: "request list"
  pages :: "row list list"
  ended :: page_end

definition page_request :: "search_fetcher \<Rightarrow> int \<Rightarrow> int \<Rightarrow> int \<Rightarrow> request" where
  "page_request f sz offset total_yielded =
     \<lparr>date_received_min = start_date f, date_received_max = end_date f,
      size = min sz (max_records f - total_yielded), frm = offset,
      has_narrative = (\<not> lite_mode f)\<rparr>"

definition add_page :: "request \<Rightarrow> row list \<Rightarrow> paging \<Rightarrow> paging" where
  "add_page rq hits p = p\<lparr>requests := rq # requests p, pages := hits # pages p\<rparr>"

text \<open>
  The \<open>while True\<close> loop of \<open>_page(size)\<close>, from the state \<open>frm\<close>,
  \<open>total_yielded\<close> and the number \<open>n\<close> of requests made so far.
\<close>

function page_loop :: "search_fetcher \<Rightarrow> provider \<Rightarrow> int \<Rightarrow> int \<Rightarrow> int \<Rightarrow> nat \<Rightarrow> paging" where
  "page_loop f srv sz offset total_yielded n =
     (if offset \<ge> min 10000 (max_records f) \<or> total_yielded \<ge> max_records f
      then \<lparr>requests = [], pages = [], ended = Limit_warned\<rparr>
      else
        (case srv n (page_request f sz offset total_yielded) of
           Status_400 \<Rightarrow>
             \<lparr>requests = [page_request f sz offset total_yielded], pages = [], ended = Stopped_400\<rparr>
         | Status_error \<Rightarrow>
             \<lparr>requests = [page_request f sz offset total_yielded], pages = [], ended = Raised HTTPError\<rparr>
         | Request_failed \<Rightarrow>
             \<lparr>requests = [page_request f sz offset total_yielded], pages = [], ended = Raised OtherException\<rparr>
         | Hits hits \<Rightarrow>
             (if hits = []
              then \<lparr>requests = [page_request f sz offset total_yielded], pages = [], ended = No_hits\<rparr>
              else if int (length hits) < sz \<or> total_yielded + int (length hits) \<ge> max_records f
              then \<lparr>requests = [page_request f sz offset total_yielded], pages = [hits], ended = Last_page\<rparr>
              else add_page (page_request f sz offset total_yielded) hits
                     (page_loop f srv sz (offset + sz) (total_yielded + int (length hits)) (Suc n)))))"
  by pat_completeness auto
termination
  by (relation "measure (\<lambda>(f, srv, sz, offset, total_yielded, n). nat (max_records f - total_yielded))")
     (auto simp: not_le)

declare page_loop.simps [simp del]

definition page :: "search_fetcher \<Rightarrow> provider \<Rightarrow> int \<Rightarrow> paging" where
  "page f srv sz = page_loop f srv sz 0 0 0"

subsection \<open>Filtering\<close>

definition drop_column :: "string \<Rightarrow> dataframe \<Rightarrow> dataframe" where
  "drop_column c df =
     df\<lparr>columns := filter (\<lambda>k. k \<noteq> c) (columns df), rows := map (\<lambda>r. r(c := NA)) (rows df)\<rparr>"

text \<open>
  \<open>_apply_filters(df)\<close>, in the order of its lines: the comparison of the dates with
  the window, which raises on a date column that cannot be compared; the narrative mask,
  whose \<open>.str\<close> raises on a column that is not one of texts; the exclusion of the
  products. The casts to categories and the copy written to disk, whose failure is
  swallowed, do not change the table returned.
\<close>

definition apply_filters :: "search_fetcher \<Rightarrow> dataframe \<Rightarrow> error + dataframe" where
  "apply_filters f df =
     (if df_empty df then Inr df
      else if ''Date received'' \<notin> set (columns df) then Inl KeyError
      else if list_ex (\<lambda>r. not_comparable (r ''Date received'')) (rows df) then Inl TypeError
      else
        (let use_narrative = (\<not> lite_mode f \<and> narrative_col \<in> set (columns df));
             kept = filter (\<lambda>r. in_window (start_date f) (end_date f) (r ''Date received'') \<and>
                                 (use_narrative \<longrightarrow> narrative_mask (r narrative_col))) (rows df)
         in if use_narrative \<and> \<not> str_accessor narrative_col (rows df) then Inl AttributeError
            else if ''Product'' \<notin> set (columns df) then Inl KeyError
            else
              (let df2 = df\<lparr>rows := filter (\<lambda>r. \<not> isin_exclusions (r ''Product'')) kept\<rparr>
               in Inr (if lite_mode f \<and> narrative_col \<in> set (columns df2)
                       then drop_column narrative_col df2 else df2))))"

subsection \<open>Loading\<close>

text \<open>The dictionary \<open>row_data\<close> built from the \<open>_source\<close> of one hit, and its keys.\<close>

definition row_data :: "search_fetcher \<Rightarrow> row \<Rightarrow> row" where
  "row_data f s =
     (\<lambda>c. if c = ''Complaint ID'' then s ''complaint_id''
          else if c = ''Date received'' then s ''date_received''
          else if c = ''Date sent to company'' then s ''date_sent_to_company''
          else if c = ''Product'' then s ''product''
          else if c = ''Issue'' then s ''issue''
          else if c = ''Company'' then s ''company''
          else if c = ''State'' then s ''state''
          else if c = narrative_col \<and> \<not> lite_mode f then s ''complaint_what_happened''
          else NA)"

definition row_columns :: "search_fetcher \<Rightarrow> string list" where
  "row_columns f =
     [''Complaint ID'', ''Date received'', ''Date sent to company'', ''Product'', ''Issue'',
      ''Company'', ''State''] @ (if lite_mode f then [] else [narrative_col])"

text \<open>The inner \<open>for h in hits\<close>: the rows so far extended, and whether it broke as truncated.\<close>

fun take_hits :: "search_fetcher \<Rightarrow> row list \<Rightarrow> row list \<Rightarrow> row list \<times> bool" where
  "take_hits f acc [] = (acc, False)"
| "take_hits f acc (h # hs) =
     (if int (length acc) \<ge> max_records f then (acc, True)
      else take_hits f (acc @ [row_data f h]) hs)"

text \<open>The outer \<open>for hits in self._page()\<close>, which stops at the first truncated page.\<close>

fun collect_pages :: "search_fetcher \<Rightarrow> row list \<Rightarrow> row list list \<Rightarrow> row list \<times> bool" where
  "collect_pages f acc [] = (acc, False)"
| "collect_pages f acc (p # ps) =
     (case take_hits f acc p of
        (acc', True) \<Rightarrow> (acc', True)
      | (acc', False) \<Rightarrow> collect_pages f acc' ps)"

text \<open>\<open>xs[:n]\<close>.\<close>

definition py_prefix :: "int \<Rightarrow> 'a list \<Rightarrow> 'a list" where
  "py_prefix n xs = (if 0 \<le> n then take (nat n) xs else take (length xs - nat (- n)) xs)"

text \<open>
  The \<open>try\<close> block of \<open>load_and_filter_data\<close> and the cut that follows it, for a
  page size \<open>sz\<close>: the rows and the local variable \<open>truncated\<close>, or the exception that
  the generator raised. The generator is resumed, and so can raise, only when the pages
  before were consumed without truncation. No rows at all is reported as \<open>Inr ([], _)\<close>.
\<close>

definition load_rows :: "search_fetcher \<Rightarrow> provider \<Rightarrow> int \<Rightarrow> error + (row list \<times> bool)" where
  "load_rows f srv sz =
     (let p = page f srv sz in
      case collect_pages f [] (pages p) of
        (rs, True) \<Rightarrow>
          Inr (if int (length rs) > max_records f then py_prefix (max_records f) rs else rs, True)
      | (rs, False) \<Rightarrow>
          (case ended p of
             Raised e \<Rightarrow> Inl e
           | _ \<Rightarrow>
             if rs \<noteq> [] \<and> int (length rs) > max_records f
             then Inr (py_prefix (max_records f) rs, True)
             else Inr (rs, False)))"

text \<open>
  The part of \<open>load_and_filter_data\<close> after the cache: a failed load and a load without
  rows both return None. The write-back to Supabase, whose failure is swallowed, does
  not change the result.
\<close>

definition from_api :: "search_fetcher \<Rightarrow> provider \<Rightarrow> error + dataframe option" where
  "from_api f srv =
     (case load_rows f srv 1000 of
        Inl e \<Rightarrow> Inr None
      | Inr (rs, truncated) \<Rightarrow>
          if rs = [] then Inr None
          else
            (case to_datetime_coerce ''Date received'' \<lparr>columns = row_columns f, rows = rs\<rparr> of
               Inl e \<Rightarrow> Inl e
             | Inr df1 \<Rightarrow>
                 (case to_datetime_coerce ''Date sent to company'' df1 of
                    Inl e \<Rightarrow> Inl e
                  | Inr df2 \<Rightarrow> map_sum id Some (apply_filters f df2))))"

text \<open>
  \<open>load_and_filter_data\<close>; \<open>cached\<close> is what \<open>get_cached_complaints\<close> returns, which
  is consulted only when the cache is in use. The result is an uncaught exception, None,
  or a table.
\<close>

definition load_and_filter_data ::
    "search_fetcher \<Rightarrow> dataframe \<Rightarrow> provider \<Rightarrow> error + dataframe option" where
  "load_and_filter_data f cached srv =
     (if use_cache f \<and> \<not> df_empty cached then map_sum id Some (apply_filters f cached)
      else from_api f srv)"

section \<open>real\_data\_fetcher\_lite.RealDataFetcher: cache, download and filters\<close>

text \<open>A file of the data directory: its modification time, and what \<open>pd.read_csv\<close> makes of it.\<close>

datatype file_content = Unreadable | Table dataframe










text \<open>The first of the candidate labels that is a column.\<close>

definition first_present :: "string list \<Rightarrow> string list \<Rightarrow> string option" where
  "first_present cands cols = (case filter (\<lambda>c. c \<in> set cols) cands of [] \<Rightarrow> None | c # _ \<Rightarrow> Some c)"

text \<open>\<open>filtered_df.rename(columns={old: new})\<close>, made only when \<open>old\<close> is a column and \<open>new\<close> is not.\<close>

definition rename_column :: "string \<times> string \<Rightarrow> dataframe \<Rightarrow> dataframe" where
  "rename_column on df =
     (case on of (old, new) \<Rightarrow>
        if old \<in> set (columns df) \<and> new \<notin> set (columns df)
        then df\<lparr>columns := map (\<lambda>c. if c = old then new else c) (columns df),
                rows := map (\<lambda>r. (r(new := r old))(old := NA)) (rows df)\<rparr>
        else df)"

definition col_map :: "(string \<times> string) list" where
  "col_map =
     [(''consumer_complaint_narrative'', ''Consumer complaint narrative''),
      (''complaint_id'', ''Complaint ID''),
      (''date_received'', ''Date received''),
      (''date_sent_to_company'', ''Date sent to company''),
      (''product'', ''Product''),
      (''issue'', ''Issue''),
      (''company'', ''Company''),
      (''state'', ''State'')]"

text \<open>The lines printed while filtering.\<close>

datatype message =
    Date_range_matches nat
  | Narrative_matches nat
  | Warning_no_narrative_column
  | Excluded_credit_reporting nat
  | Final_dataset nat

text \<open>
  The filters of \<open>load_and_filter_data\<close>, from the conversion of the dates to the
  renaming of the columns, on the table read from the CSV file: the lines printed and the
  filtered table, or the exception raised. The comparison of the dates raises on dates
  with a UTC offset, and the \<open>.str\<close> of the narrative mask raises on a narrative
  column that is not one of texts, such as a column of empty fields only.
\<close>

definition lite_filter :: "fetcher \<Rightarrow> dataframe \<Rightarrow> error + (message list \<times> dataframe)" where
  "lite_filter f df0 =
     (case to_datetime_strict ''Date received'' df0 of
        Inl e \<Rightarrow> Inl e
      | Inr df1 \<Rightarrow>
          (case to_datetime_coerce ''Date sent to company'' df1 of
             Inl e \<Rightarrow> Inl e
           | Inr df \<Rightarrow>
               if list_ex (\<lambda>r. not_comparable (r ''Date received'')) (rows df) then Inl TypeError
               else
               (let date_mask = (\<lambda>r. in_window (start_date f) (end_date f) (r ''Date received''));
                    log1 = [Date_range_matches (length (filter date_mask (rows df)))];
                    narrative_c = first_present [''Consumer complaint narrative'', ''consumer_complaint_narrative''] (columns df);
                    narrative_m = (case narrative_c of
                                     Some c \<Rightarrow> (\<lambda>r. narrative_mask (r c))
                                   | None \<Rightarrow> (\<lambda>r. True));
                    log2 = (case narrative_c of
                              Some c \<Rightarrow> [Narrative_matches (length (filter narrative_m (rows df)))]
                            | None \<Rightarrow> [Warning_no_narrative_column]);
                    product_c = first_present [''Product'', ''product''] (columns df);
                    product_m = (case product_c of
                                   Some c \<Rightarrow> (\<lambda>r. \<not> isin_exclusions (r c))
                                 | None \<Rightarrow> (\<lambda>r. True));
                    log3 = (case product_c of
                              Some c \<Rightarrow> [Excluded_credit_reporting (length (filter (\<lambda>r. \<not> product_m r) (rows df)))]
                            | None \<Rightarrow> []);
                    filtered_df = df\<lparr>rows := filter (\<lambda>r. date_mask r \<and> narrative_m r \<and> product_m r) (rows df)\<rparr>;
                    log4 = [Final_dataset (length (rows filtered_df))]
                in if (case narrative_c of Some c \<Rightarrow> \<not> str_accessor c (rows df) | None \<Rightarrow> False)
                   then Inl AttributeError
                   else Inr (log1 @ log2 @ log3 @ log4, fold rename_column col_map filtered_df))))"


section \<open>cfpb\_analyzer.CFPBAnalyzer\<close>

text \<open>
  An instance is the dictionary of its attributes; reading an attribute that was never
  assigned raises AttributeError.
\<close>

datatype pyval =
    NoneValue
  | PyStr string
  | PyDatetime int
  | PyStrs "string list"
  | PyTaxonomy "(string \<times> string list) list"
  | PyFrame dataframe
  | PyFetcher

type_synonym py_object = "string \<rightharpoonup> pyval"

definition getattr :: "py_object \<Rightarrow> string \<Rightarrow> error + pyval" where
  "getattr self name = (case self name of None \<Rightarrow> Inl AttributeError | Some v \<Rightarrow> Inr v)"

text \<open>
  \<open>CFPBAnalyzer.__init__\<close>, in the order of its assignments. The taxonomy
  \<open>harm_mechanisms\<close> is an argument: its labels and patterns are data that no
  property below depends on.
\<close>

definition CFPBAnalyzer_init :: "(string \<times> string list) list \<Rightarrow> py_object" where
  "CFPBAnalyzer_init harm_mechanisms =
     [''data_dir'' \<mapsto> PyStr ''data/'',
      ''output_dir'' \<mapsto> PyStr ''outputs/'',
      ''viz_dir'' \<mapsto> PyStr ''visualizations/'',
      ''data_fetcher'' \<mapsto> PyFetcher,
      ''end_date'' \<mapsto> PyDatetime 1760832000000000,
      ''start_date'' \<mapsto> PyDatetime 1745020800000000,
      ''ai_keywords'' \<mapsto> PyStrs
         [''AI'', ''artificial intelligence'', ''algorithm'', ''algorithmic'', ''model'',
          ''chatbot'', ''automated decision'', ''machine learning'', ''ML'', ''bot'',
          ''algorithmic bias'', ''automated'', ''robo'', ''intelligent system''],
      ''lep_keywords'' \<mapsto> PyStrs
         [''language'', ''Spanish'', ''LEP'', ''translation'', ''non-English'', ''interpreter'',
          ''bilingual'', ''translate'', ''English proficiency'', ''language barrier'',
          ''Spanish-speaking'', ''language assistance'', ''limited English''],
      ''fraud_digital_keywords'' \<mapsto> PyStrs
         [''fraud'', ''fraudulent'', ''scam'', ''scammer'', ''unauthorized'', ''Zelle'',
          ''digital wallet'', ''app'', ''mobile banking'', ''phishing'', ''identity theft'',
          ''cybercrime'', ''digital fraud'', ''online fraud'', ''wire fraud'', ''ACH fraud'',
          ''synthetic identity'', ''account takeover''],
      ''harm_mechanisms'' \<mapsto> PyTaxonomy harm_mechanisms,
      ''df'' \<mapsto> NoneValue,
      ''filtered_df'' \<mapsto> NoneValue]"

text \<open>A comparison of the date column with an attribute, which has to be a datetime.\<close>

definition datetime_attr :: "py_object \<Rightarrow> string \<Rightarrow> error + int" where
  "datetime_attr self name =
     (case getattr self name of
        Inl e \<Rightarrow> Inl e
      | Inr (PyDatetime t) \<Rightarrow> Inr t
      | Inr _ \<Rightarrow> Inl TypeError)"

text \<open>
  \<open>CFPBAnalyzer.load_and_filter_data(csv_path)\<close>, where \<open>csv\<close> is what
  \<open>pd.read_csv\<close> makes of the path. Each line is evaluated from left to right: the
  column is read before the attribute it is compared with. The result is the instance as
  updated and the table returned, or the exception.
\<close>

definition analyzer_load_and_filter_data ::
    "py_object \<Rightarrow> file_content \<Rightarrow> error + (py_object \<times> dataframe)" where
  "analyzer_load_and_filter_data self csv =
     (case csv of
        Unreadable \<Rightarrow> Inl OtherException
      | Table df0 \<Rightarrow>
          (case to_datetime_strict ''date_received'' df0 of
             Inl e \<Rightarrow> Inl e
           | Inr df \<Rightarrow>
               (case datetime_attr self ''start_date'' of
                  Inl e \<Rightarrow> Inl e
                | Inr start_d \<Rightarrow>
                    (case datetime_attr self ''end_date'' of
                       Inl e \<Rightarrow> Inl e
                     | Inr end_d \<Rightarrow>
                         if list_ex (\<lambda>r. not_comparable (r ''date_received'')) (rows df) then Inl TypeError
                         else if ''consumer_complaint_narrative'' \<notin> set (columns df) then Inl KeyError
                         else if ''product'' \<notin> set (columns df) then Inl KeyError
                         else
                           (case getattr self ''credit_exclusions'' of
                              Inl e \<Rightarrow> Inl e
                            | Inr (PyStrs excl) \<Rightarrow>
                                (let filtered_df = df\<lparr>rows :=
                                       filter (\<lambda>r. in_window start_d end_d (r ''date_received'') \<and>
                                                   (notna (r ''consumer_complaint_narrative'') \<and>
                                                    r ''consumer_complaint_narrative'' \<noteq> Str '''') \<and>
                                                   \<not> (case r ''product'' of Str s \<Rightarrow> s \<in> set excl | _ \<Rightarrow> False))
                                              (rows df)\<rparr>
                                 in Inr (self(''df'' \<mapsto> PyFrame df, ''filtered_df'' \<mapsto> PyFrame filtered_df),
                                         filtered_df))
                            | Inr _ \<Rightarrow> Inl TypeError)))))"

subsection \<open>Harm mechanisms\<close>

text \<open>\<open>sep.join(xs)\<close>.\<close>

fun join :: "string \<Rightarrow> string list \<Rightarrow> string" where
  "join sep [] = []"
| "join sep [x] = x"
| "join sep (x # y # ys) = x @ sep @ join sep (y # ys)"

text \<open>
  \<open>Series.str.contains(pat, case=False, na=False, regex=True)\<close> on one cell, for a
  regular-expression search \<open>re_search pat text\<close> that ignores case; a cell that is no
  text does not match.
\<close>

definition str_contains :: "(string \<Rightarrow> string \<Rightarrow> bool) \<Rightarrow> string \<Rightarrow> cell \<Rightarrow> bool" where
  "str_contains re_search pat c = (case c of Str s \<Rightarrow> re_search pat s | _ \<Rightarrow> False)"

text \<open>The texts of a column, nulls left out.\<close>

definition texts :: "string \<Rightarrow> row list \<Rightarrow> string list" where
  "texts col rs = concat (map (\<lambda>r. case r col of Str s \<Rightarrow> [s] | _ \<Rightarrow> []) rs)"

text \<open>
  \<open>Series.mode()\<close> of a column of texts: the values that occur most often among the
  values that are not null, in ascending order.
\<close>

definition series_mode :: "string \<Rightarrow> row list \<Rightarrow> string list" where
  "series_mode col rs =
     (let vs = texts col rs
      in sort (remdups (filter (\<lambda>v. \<forall>w \<in> set vs. count_list vs w \<le> count_list vs v) vs)))"

text \<open>\<open>df[col].mode()[0]\<close>.\<close>

definition mode0 :: "string \<Rightarrow> dataframe \<Rightarrow> error + string" where
  "mode0 col df =
     (if col \<notin> set (columns df) then Inl KeyError
      else case series_mode col (rows df) of [] \<Rightarrow> Inl KeyError | m # _ \<Rightarrow> Inr m)"

record summary_row =
  Harm_Mechanism :: string
  Count :: nat
  Percentage :: rat
  Top_Product :: string
  Top_Company :: string

text \<open>The update of the column \<open>harm_categories\<close> on one matching row.\<close>

definition add_category :: "string \<Rightarrow> cell \<Rightarrow> cell" where
  "add_category harm_type x =
     (case x of
        Str s \<Rightarrow> if s = [] then Str harm_type else Str (s @ '', '' @ harm_type)
      | _ \<Rightarrow> Str harm_type)"

record harm_state =
  df_copy :: dataframe
  results :: "(string \<times> dataframe) list"
  harm_summary :: "summary_row list"

text \<open>
  The loop over \<open>self.harm_mechanisms.items()\<close>, with \<open>n_total\<close> the length of
  \<open>self.filtered_df\<close>. The percentage is the quotient as a rational number.
\<close>

fun harm_loop ::
    "(string \<Rightarrow> string \<Rightarrow> bool) \<Rightarrow> nat \<Rightarrow> (string \<times> string list) list \<Rightarrow> harm_state \<Rightarrow> error + harm_state" where
  "harm_loop re_search n_total [] st = Inr st"
| "harm_loop re_search n_total ((harm_type, patterns) # rest) st =
     (if ''consumer_complaint_narrative'' \<notin> set (columns (df_copy st)) then Inl KeyError
      else if \<not> str_accessor ''consumer_complaint_narrative'' (rows (df_copy st)) then Inl AttributeError
      else
        (let combined_pattern = join ''|'' patterns;
             mask = (\<lambda>r. str_contains re_search combined_pattern (r ''consumer_complaint_narrative''));
             matching_complaints = (df_copy st)\<lparr>rows := filter mask (rows (df_copy st))\<rparr>
         in if length (rows matching_complaints) > 0 then
              (case mode0 ''product'' matching_complaints of
                 Inl e \<Rightarrow> Inl e
               | Inr top_product \<Rightarrow>
                   (case mode0 ''company'' matching_complaints of
                      Inl e \<Rightarrow> Inl e
                    | Inr top_company \<Rightarrow>
                        harm_loop re_search n_total rest
                          \<lparr>df_copy = (df_copy st)\<lparr>rows :=
                               map (\<lambda>r. if mask r
                                         then r(''harm_categories'' := add_category harm_type (r ''harm_categories''))
                                         else r) (rows (df_copy st))\<rparr>,
                           results = results st @ [(harm_type, matching_complaints)],
                           harm_summary = harm_summary st @
                             [\<lparr>Harm_Mechanism = harm_type,
                               Count = length (rows matching_complaints),
                               Percentage = of_nat (length (rows matching_complaints)) / of_nat n_total * 100,
                               Top_Product = top_product,
                               Top_Company = top_company\<rparr>]\<rparr>))
            else harm_loop re_search n_total rest st))"

record harm_analysis =
  by_mechanism :: "(string \<times> dataframe) list"
  summary :: "summary_row list"
  df_with_categories :: dataframe

text \<open>
  \<open>CFPBAnalyzer.analyze_harm_mechanisms\<close>. The summary is sorted by falling count,
  rows of equal count keeping their order; sorting a summary without rows raises, since
  the empty table has no column \<open>Count\<close>.
\<close>

definition analyze_harm_mechanisms ::
    "(string \<Rightarrow> string \<Rightarrow> bool) \<Rightarrow> py_object \<Rightarrow> error + harm_analysis" where
  "analyze_harm_mechanisms re_search self =
     (case getattr self ''filtered_df'' of
        Inl e \<Rightarrow> Inl e
      | Inr NoneValue \<Rightarrow> Inl ValueError
      | Inr (PyFrame filtered_df) \<Rightarrow>
          (case getattr self ''harm_mechanisms'' of
             Inl e \<Rightarrow> Inl e
           | Inr (PyTaxonomy harm_mechanisms) \<Rightarrow>
               (case harm_loop re_search (length (rows filtered_df)) harm_mechanisms
                       \<lparr>df_copy = filtered_df\<lparr>columns := columns filtered_df @
                                      (if ''harm_categories'' \<in> set (columns filtered_df) then []
                                       else [''harm_categories'']),
                                    rows := map (\<lambda>r. r(''harm_categories'' := Str '''')) (rows filtered_df)\<rparr>,
                        results = [], harm_summary = []\<rparr> of
                  Inl e \<Rightarrow> Inl e
                | Inr st \<Rightarrow>
                    if harm_summary st = [] then Inl KeyError
                    else Inr \<lparr>by_mechanism = results st,
                              summary = sort_key (\<lambda>r. - int (Count r)) (harm_summary st),
                              df_with_categories = df_copy st\<rparr>)
           | Inr _ \<Rightarrow> Inl TypeError)
      | Inr _ \<Rightarrow> Inl AttributeError)"

section \<open>Providers and inputs of the examples\<close>

text \<open>
  The contract of a paged endpoint: a page holds at most the number of hits asked for
  with \<open>size\<close>.
\<close>

definition honours_size :: "provider \<Rightarrow> bool" where
  "honours_size srv = (\<forall>n rq hits. srv n rq = Hits hits \<longrightarrow> int (length hits) \<le> size rq)"

text \<open>The number of records that a run of the generator yielded.\<close>

definition yielded :: "paging \<Rightarrow> nat" where
  "yielded p = length (concat (pages p))"

text \<open>
  A provider that holds a list of records and serves the slice asked for; it answers a
  negative size or offset with status 400.
\<close>

definition store_provider :: "row list \<Rightarrow> provider" where
  "store_provider store n rq =
     (if size rq < 0 \<or> frm rq < 0 then Status_400
      else Hits (take (nat (size rq)) (drop (nat (frm rq)) store)))"

definition numbered_hit :: "nat \<Rightarrow> row" where
  "numbered_hit i c =
     (if c = ''date_received'' then Ts (int i)
      else if c = ''product'' then Str ''Mortgage''
      else PyNone)"

definition store300 :: "row list" where
  "store300 = map numbered_hit [0..<300]"

text \<open>A provider that answers every request with three hits, whatever the size asked for.\<close>

definition oversized_provider :: provider where
  "oversized_provider n rq = Hits [numbered_hit 0, numbered_hit 1, numbered_hit 2]"

text \<open>A fetcher in lite mode without cache, with the window from 0 to 1000 and a given cap.\<close>

definition fetcher_cap :: "int \<Rightarrow> search_fetcher" where
  "fetcher_cap m = \<lparr>start_date = 0, end_date = 1000, lite_mode = True, max_records = m, use_cache = False\<rparr>"

text \<open>Fetchers and tables of the examples.\<close>

definition fetcher_full :: search_fetcher where
  "fetcher_full = \<lparr>start_date = 0, end_date = 1000, lite_mode = False, max_records = 5000, use_cache = True\<rparr>"

definition lite_fetcher :: fetcher where
  "lite_fetcher = \<lparr>start_date = 0, end_date = 1000, lite_mode = False\<rparr>"

definition complaint :: "int \<Rightarrow> string \<Rightarrow> cell \<Rightarrow> row" where
  "complaint t product narr c =
     (if c = ''Date received'' then Ts t
      else if c = ''Product'' then Str product
      else if c = narrative_col then narr
      else NA)"

definition frame_no_narrative :: dataframe where
  "frame_no_narrative =
     \<lparr>columns = [''Date received'', ''Date sent to company'', ''Product''],
      rows = [complaint 500 ''Mortgage'' NA]\<rparr>"

definition frame_mixed :: dataframe where
  "frame_mixed =
     \<lparr>columns = [''Date received'', ''Date sent to company'', ''Product'', narrative_col],
      rows = [complaint 500 ''Mortgage'' (Str ''They charged a fee''),
              complaint 2000 ''Mortgage'' (Str ''Too late''),
              complaint 600 ''Credit reporting'' (Str ''Wrong entry''),
              complaint 700 ''Mortgage'' (Str ''   ''),
              complaint 800 ''Debt collection'' NA]\<rparr>"

definition frame_kept :: dataframe where
  "frame_kept =
     \<lparr>columns = [''Date received'', ''Date sent to company'', ''Product'', narrative_col],
      rows = [complaint 500 ''Mortgage'' (Str ''They charged a fee'')]\<rparr>"

definition frame_no_product :: dataframe where
  "frame_no_product =
     \<lparr>columns = [''Date received'', ''Date sent to company'', narrative_col],
      rows = [(complaint 500 ''Mortgage'' (Str ''They charged a fee''))(''Product'' := NA)]\<rparr>"








section \<open>Properties\<close>

subsection \<open>Window Calculator\<close>

lemma day_pos: "0 < day"
  by (simp add: day_def)

text \<open>
  C6 (as amended). In both fetchers \<open>end_date\<close> is the clock and \<open>start_date\<close> is
  30 days times the clamped month count before it. \<open>RealDataFetcher\<close> clamps the
  configured months to the interval from 1 to 12 (and takes 4 when the variable is not set
  or is no number); \<open>SearchAPIRealDataFetcher\<close> clamps its argument to the interval
  from 1 to 3. So the window is 30 times \<open>m\<close> days long for every \<open>m\<close> from 1 to 12
  in the first and for every \<open>m\<close> from 1 to 3 in the second.
\<close>

theorem window_calculator:
  "snd (lite_window now (Parsed m)) = now \<and>
   snd (lite_window now (Parsed m)) - fst (lite_window now (Parsed m))
     = timedelta_days (30 * (if m < 1 then 1 else if 12 < m then 12 else m)) \<and>
   snd (lite_window now Unset) - fst (lite_window now Unset) = timedelta_days (30 * 4) \<and>
   snd (lite_window now Invalid) - fst (lite_window now Invalid) = timedelta_days (30 * 4) \<and>
   snd (search_window now m) = now \<and>
   snd (search_window now m) - fst (search_window now m)
     = timedelta_days (30 * (if m < 1 then 1 else if 3 < m then 3 else m))"
  by (simp add: lite_window_def search_window_def Let_def max_def min_def)

theorem window_calculator_witness:
  "snd (lite_window 100 (Parsed 14)) - fst (lite_window 100 (Parsed 14)) = timedelta_days (30 * 12) \<and>
   snd (lite_window 100 (Parsed 5)) - fst (lite_window 100 (Parsed 5)) = timedelta_days (30 * 5) \<and>
   snd (search_window 100 0) - fst (search_window 100 0) = timedelta_days (30 * 1) \<and>
   snd (search_window 100 2) - fst (search_window 100 2) = timedelta_days (30 * 2)"
  using window_calculator [of 100 14] window_calculator [of 100 5] window_calculator [of 100 0]
    window_calculator [of 100 2]
  by simp

text \<open>
  The claim as stated fails for \<open>SearchAPIRealDataFetcher\<close>: six months, a value
  inside the interval from 1 to 12, give a window of 90 days and not of 180.
\<close>

theorem search_window_counterexample:
  "snd (search_window 0 6) - fst (search_window 0 6) = timedelta_days (30 * 3) \<and>
   snd (search_window 0 6) - fst (search_window 0 6) \<noteq> timedelta_days (30 * 6)"
  by (simp add: search_window_def timedelta_days_def day_def)

subsection \<open>Pagination Controller\<close>

lemma yielded_simps [simp]:
  "yielded \<lparr>requests = rs, pages = ps, ended = e\<rparr> = length (concat ps)"
  "yielded (add_page rq hits p) = length hits + yielded p"
  by (simp_all add: yielded_def add_page_def)

lemma requests_add_page [simp]: "requests (add_page rq hits p) = rq # requests p"
  by (simp add: add_page_def)

lemma page_loop_offsets:
  "\<forall>rq \<in> set (requests (page_loop f srv sz offset total_yielded n)).
     frm rq < min 10000 (max_records f)"
proof (induction f srv sz offset total_yielded n rule: page_loop.induct)
  case (1 f srv sz offset total_yielded n)
  show ?case
    apply (subst page_loop.simps)
    using 1
    by (auto simp: page_request_def split: response.splits)
qed

lemma honours_sizeD:
  "honours_size srv \<Longrightarrow> srv n (page_request f sz offset total_yielded) = Hits hits \<Longrightarrow>
   int (length hits) \<le> max_records f - total_yielded"
  by (auto simp: honours_size_def page_request_def dest!: spec)

lemma page_loop_stopped:
  "max_records f \<le> total_yielded \<Longrightarrow> page_loop f srv sz offset total_yielded n
     = \<lparr>requests = [], pages = [], ended = Limit_warned\<rparr>"
  by (subst page_loop.simps) simp

lemma page_loop_cap:
  "honours_size srv \<Longrightarrow> total_yielded < max_records f \<Longrightarrow>
   total_yielded + int (yielded (page_loop f srv sz offset total_yielded n)) \<le> max_records f"
proof (induction f srv sz offset total_yielded n rule: page_loop.induct)
  case (1 f srv sz offset total_yielded n)
  show ?case
  proof (cases "srv n (page_request f sz offset total_yielded)")
    case (Hits hits)
    have len: "int (length hits) \<le> max_records f - total_yielded"
      using honours_sizeD [OF "1.prems"(1) Hits] .
    show ?thesis
      apply (subst page_loop.simps)
      using Hits len "1.prems" "1.IH" [OF _ Hits]
      by (auto simp: not_le)
  next
    case Status_400
    then show ?thesis using "1.prems" by (subst page_loop.simps) simp
  next
    case Status_error
    then show ?thesis using "1.prems" by (subst page_loop.simps) simp
  next
    case Request_failed
    then show ?thesis using "1.prems" by (subst page_loop.simps) simp
  qed
qed

text \<open>
  C2 (as amended). Whatever the provider answers, no request is issued with an offset
  \<open>frm\<close> of 10000 or more. If every page holds at most the number of hits asked for,
  the records yielded over all pages are at most \<open>max_records\<close>, for every page
  size; for a negative \<open>max_records\<close> nothing is requested and nothing is yielded.
\<close>

theorem page_cap:
  "(honours_size srv \<longrightarrow> int (yielded (page f srv sz)) \<le> max 0 (max_records f)) \<and>
   (\<forall>rq \<in> set (requests (page f srv sz)). frm rq < 10000)"
proof
  show "honours_size srv \<longrightarrow> int (yielded (page f srv sz)) \<le> max 0 (max_records f)"
  proof (cases "0 < max_records f")
    case True
    then show ?thesis
      using page_loop_cap [of srv 0 f sz 0 0] by (auto simp: page_def)
  next
    case False
    then show ?thesis
      by (simp add: page_def page_loop_stopped)
  qed
  show "\<forall>rq \<in> set (requests (page f srv sz)). frm rq < 10000"
    using page_loop_offsets [of f srv sz 0 0 0] by (auto simp: page_def)
qed

lemma store_provider_honours: "honours_size (store_provider store)"
  by (auto simp: honours_size_def store_provider_def)

theorem page_cap_witness:
  "honours_size (store_provider store300) \<and>
   int (yielded (page (fetcher_cap 250) (store_provider store300) 100)) \<le> 250 \<and>
   list_all (\<lambda>rq. frm rq < 10000) (requests (page (fetcher_cap 250) (store_provider store300) 100))"
  using page_cap [of "store_provider store300" "fetcher_cap 250" 100] store_provider_honours
  by (simp add: fetcher_cap_def list_all_iff)

text \<open>
  The claim as stated fails when the provider does not keep to the size asked for: with a
  cap of 2 the generator asks for 2 hits, gets 3 and yields all 3. The consumer of the
  pages guards against this case by counting the rows itself.
\<close>

theorem oversized_counterexample:
  "yielded (page (fetcher_cap 2) oversized_provider 1000) = 3 \<and>
   max_records (fetcher_cap 2) = 2"
  by (simp add: page_def page_loop.simps [of _ _ _ 0 0 0] oversized_provider_def fetcher_cap_def)


lemma take_hits_eq:
  "take_hits f acc hs =
     (acc @ map (row_data f) (take (nat (max_records f - int (length acc))) hs),
      hs \<noteq> [] \<and> max_records f < int (length acc + length hs))"
proof (induction hs arbitrary: acc)
  case Nil
  show ?case by simp
next
  case (Cons h hs)
  show ?case
  proof (cases "max_records f \<le> int (length acc)")
    case True
    then show ?thesis by simp
  next
    case False
    then obtain k where k: "nat (max_records f - int (length acc)) = Suc k"
      by (cases "nat (max_records f - int (length acc))") auto
    then have k': "nat (max_records f - int (length (acc @ [row_data f h]))) = k"
      by simp
    have "take_hits f acc (h # hs) = take_hits f (acc @ [row_data f h]) hs"
      using False by simp
    also have "\<dots> = ((acc @ [row_data f h]) @ map (row_data f) (take k hs),
                      hs \<noteq> [] \<and> max_records f < int (length (acc @ [row_data f h]) + length hs))"
      using Cons.IH [of "acc @ [row_data f h]"] k' by simp
    also have "\<dots> = (acc @ map (row_data f) (take (Suc k) (h # hs)),
                      h # hs \<noteq> [] \<and> max_records f < int (length acc + length (h # hs)))"
      using False by (cases hs) auto
    finally show ?thesis by (simp only: k)
  qed
qed

lemma collect_pages_eq:
  "int (length acc) + int (length (concat ps)) \<le> max_records f \<Longrightarrow>
   collect_pages f acc ps = (acc @ map (row_data f) (concat ps), False)"
proof (induction ps arbitrary: acc)
  case Nil
  show ?case by simp
next
  case (Cons p ps)
  have "take_hits f acc p = (acc @ map (row_data f) p, False)"
    using Cons.prems by (auto simp: take_hits_eq)
  then show ?case
    using Cons.prems Cons.IH [of "acc @ map (row_data f) p"] by simp
qed


lemma page_yield_bound:
  "honours_size srv \<Longrightarrow> int (yielded (page f srv sz)) \<le> max_records f \<or> pages (page f srv sz) = []"
proof (cases "0 < max_records f")
  case True
  assume "honours_size srv"
  then show ?thesis
    using page_loop_cap [of srv 0 f sz 0 0] True by (simp add: page_def)
next
  case False
  then show ?thesis by (simp add: page_def page_loop_stopped)
qed

lemma load_rows_honest:
  assumes "honours_size srv"
  shows "load_rows f srv sz =
           (case ended (page f srv sz) of
              Raised e \<Rightarrow> Inl e
            | _ \<Rightarrow> Inr (map (row_data f) (concat (pages (page f srv sz))), False))"
proof -
  let ?p = "page f srv sz"
  have c: "collect_pages f [] (pages ?p) = (map (row_data f) (concat (pages ?p)), False)"
  proof (cases "pages ?p = []")
    case True
    then show ?thesis by simp
  next
    case False
    then have "int (yielded ?p) \<le> max_records f"
      using page_yield_bound [OF assms, of f sz] by simp
    then show ?thesis
      using collect_pages_eq [of "[]" "pages ?p" f] by (simp add: yielded_def)
  qed
  have b: "pages ?p \<noteq> [] \<Longrightarrow> \<not> int (length (concat (pages ?p))) > max_records f"
    using page_yield_bound [OF assms, of f sz] by (simp add: yielded_def)
  show ?thesis
    using b by (cases "pages ?p = []") (auto simp: load_rows_def Let_def c split: page_end.splits)
qed

lemma page_250_100:
  assumes "max_records f = 250" and "250 \<le> length store"
  shows "page f (store_provider store) 100 =
           \<lparr>requests = [page_request f 100 0 0, page_request f 100 100 100, page_request f 100 200 200],
            pages = [take 100 store, take 100 (drop 100 store), take 50 (drop 200 store)],
            ended = Last_page\<rparr>"
proof -
  have ne: "store \<noteq> []" using assms(2) by auto
  have s3: "page_loop f (store_provider store) 100 200 200 (Suc (Suc 0))
              = \<lparr>requests = [page_request f 100 200 200], pages = [take 50 (drop 200 store)], ended = Last_page\<rparr>"
    using assms by (subst page_loop.simps) (simp add: store_provider_def page_request_def)
  have s2: "page_loop f (store_provider store) 100 100 100 (Suc 0)
              = add_page (page_request f 100 100 100) (take 100 (drop 100 store))
                  (page_loop f (store_provider store) 100 200 200 (Suc (Suc 0)))"
    using assms by (subst page_loop.simps) (simp add: store_provider_def page_request_def)
  have s1: "page_loop f (store_provider store) 100 0 0 0
              = add_page (page_request f 100 0 0) (take 100 store)
                  (page_loop f (store_provider store) 100 100 100 (Suc 0))"
    using assms ne by (subst page_loop.simps) (simp add: store_provider_def page_request_def)
  show ?thesis
    by (simp add: page_def s1 s2 s3 add_page_def)
qed

lemma single_page_1000:
  assumes "0 < max_records f" and "max_records f \<le> 1000" and "nat (max_records f) \<le> length store"
  shows "page f (store_provider store) 1000 =
           \<lparr>requests = [page_request f 1000 0 0], pages = [take (nat (max_records f)) store], ended = Last_page\<rparr>"
proof -
  have ne: "store \<noteq> []" using assms by auto
  show ?thesis
    unfolding page_def
    using assms ne by (subst page_loop.simps) (auto simp: store_provider_def page_request_def min_def)
qed


text \<open>
  C5 (as amended). With \<open>max_records\<close> 250 and a page size of 100, against a provider
  that holds at least 250 records and serves the slices asked for, the generator issues
  exactly three requests, of sizes 100, 100 and 50 at the offsets 0, 100 and 200, and
  yields exactly the first 250 records. What \<open>load_and_filter_data\<close> returns is the
  table or None and nothing else: it is the same whether the provider holds more
  records than the cap or exactly the first 250.
\<close>

theorem pagination_250_100:
  assumes "max_records f = 250" and "250 \<le> length store"
  shows "map (\<lambda>rq. (size rq, frm rq)) (requests (page f (store_provider store) 100))
           = [(100, 0), (100, 100), (50, 200)] \<and>
         concat (pages (page f (store_provider store) 100)) = take 250 store \<and>
         length (concat (pages (page f (store_provider store) 100))) = 250 \<and>
         load_and_filter_data f cached (store_provider store)
           = load_and_filter_data f cached (store_provider (take 250 store))"
proof -
  have c: "take 100 store @ take 100 (drop 100 store) @ take 50 (drop 200 store) = take 250 store"
    using take_add [of 100 150 store] take_add [of 100 50 "drop 100 store"] by simp
  have p1: "page f (store_provider store) 1000
              = \<lparr>requests = [page_request f 1000 0 0], pages = [take 250 store], ended = Last_page\<rparr>"
    using single_page_1000 [of f store] assms by simp
  have p2: "page f (store_provider (take 250 store)) 1000
              = \<lparr>requests = [page_request f 1000 0 0], pages = [take 250 store], ended = Last_page\<rparr>"
    using single_page_1000 [of f "take 250 store"] assms by simp
  have l: "load_rows f (store_provider store) 1000 = load_rows f (store_provider (take 250 store)) 1000"
    by (simp only: load_rows_def p1 p2)
  show ?thesis
    using assms c
    by (simp add: page_250_100 page_request_def load_and_filter_data_def from_api_def l)
qed

theorem pagination_250_100_witness:
  "max_records (fetcher_cap 250) = 250 \<and> 250 \<le> length store300 \<and>
   map (\<lambda>rq. (size rq, frm rq)) (requests (page (fetcher_cap 250) (store_provider store300) 100))
     = [(100, 0), (100, 100), (50, 200)] \<and>
   length (concat (pages (page (fetcher_cap 250) (store_provider store300) 100))) = 250"
  using pagination_250_100 [of "fetcher_cap 250" store300]
  by (simp add: fetcher_cap_def store300_def)

text \<open>
  The claim as stated fails on the truncation flag: with a provider that holds 300
  records and a cap of 250, the local variable \<open>truncated\<close> of
  \<open>load_and_filter_data\<close> is False after the load, for the page size 100 of the claim
  and for the page size 1000 that the function uses.
\<close>

theorem truncation_flag_counterexample:
  "250 < length store300 \<and>
   map_sum id snd (load_rows (fetcher_cap 250) (store_provider store300) 100) = Inr False \<and>
   map_sum id snd (load_rows (fetcher_cap 250) (store_provider store300) 1000) = Inr False"
proof -
  have m: "max_records (fetcher_cap 250) = 250" by (simp add: fetcher_cap_def)
  have n: "250 \<le> length store300" by (simp add: store300_def)
  have "ended (page (fetcher_cap 250) (store_provider store300) 100) = Last_page"
    using page_250_100 [OF m n] by simp
  moreover have "ended (page (fetcher_cap 250) (store_provider store300) 1000) = Last_page"
    using single_page_1000 [of "fetcher_cap 250" store300] m n by simp
  ultimately show ?thesis
    by (simp add: load_rows_honest [OF store_provider_honours] store300_def)
qed

subsection \<open>Filter Engine\<close>

lemma narrative_mask_iff:
  "narrative_mask c \<longleftrightarrow> c \<noteq> NA \<and> c \<noteq> PyNone \<and> (\<forall>s. c = Str s \<longrightarrow> strip s \<noteq> [])"
  by (cases c) (simp_all add: narrative_mask_def notna_def str_strip_def)

lemma in_window_iff:
  "in_window lo hi c \<longleftrightarrow> (\<exists>t. c = Ts t \<and> lo \<le> t \<and> t \<le> hi)"
  by (cases c) (simp_all add: in_window_def)

lemma isin_exclusions_iff:
  "\<not> isin_exclusions c \<longleftrightarrow> (\<forall>s. c = Str s \<longrightarrow> s \<notin> set credit_exclusions)"
  by (cases c) (simp_all add: isin_exclusions_def)

lemma filter_absent: "c \<notin> set xs \<Longrightarrow> filter (\<lambda>k. k \<noteq> c) xs = xs"
  by (induction xs) auto

lemma apply_filters_nonempty:
  assumes "\<not> df_empty df" and "apply_filters f df = Inr out"
  shows "columns out = (if lite_mode f then filter (\<lambda>k. k \<noteq> narrative_col) (columns df) else columns df)"
    and "rows out =
           map (\<lambda>r. if lite_mode f \<and> narrative_col \<in> set (columns df) then r(narrative_col := NA) else r)
             (filter (\<lambda>r. in_window (start_date f) (end_date f) (r ''Date received'') \<and>
                          (\<not> lite_mode f \<and> narrative_col \<in> set (columns df) \<longrightarrow> narrative_mask (r narrative_col)) \<and>
                          \<not> isin_exclusions (r ''Product'')) (rows df))"
    and "''Date received'' \<in> set (columns df)" and "''Product'' \<in> set (columns df)"
  using assms
  by (auto simp: apply_filters_def Let_def drop_column_def filter_absent split: if_splits)

lemma apply_filters_empty: "df_empty df \<Longrightarrow> apply_filters f df = Inr df"
  by (simp add: apply_filters_def)

lemma apply_filters_post:
  assumes "apply_filters f df = Inr out" and "columns df = [] \<longrightarrow> rows df = []" and "r \<in> set (rows out)"
  shows "(\<exists>t. r ''Date received'' = Ts t \<and> start_date f \<le> t \<and> t \<le> end_date f) \<and>
         (\<forall>s. r ''Product'' = Str s \<longrightarrow> s \<notin> set credit_exclusions) \<and>
         (\<not> lite_mode f \<and> narrative_col \<in> set (columns df) \<longrightarrow>
            r narrative_col \<noteq> NA \<and> r narrative_col \<noteq> PyNone \<and>
            (\<forall>s. r narrative_col = Str s \<longrightarrow> strip s \<noteq> []))"
proof (cases "df_empty df")
  case True
  then have "rows df = []" using assms(2) by (auto simp: df_empty_def)
  moreover have "out = df" using True assms(1) by (simp add: apply_filters_empty)
  ultimately show ?thesis using assms(3) by simp
next
  case False
  show ?thesis
    using assms(3) apply_filters_nonempty(2) [OF False assms(1)]
    by (auto simp: narrative_mask_iff [symmetric] in_window_iff [symmetric]
          isin_exclusions_iff [symmetric])
qed


lemma rename_column_other:
  assumes "c \<noteq> old" and "c \<noteq> new"
  shows "(c \<in> set (columns (rename_column (old, new) df))) = (c \<in> set (columns df))"
    and "map (\<lambda>r. r c) (rows (rename_column (old, new) df)) = map (\<lambda>r. r c) (rows df)"
  using assms by (auto simp: rename_column_def)

lemma rename_column_kept:
  assumes "c \<in> set (columns df)" and "c \<noteq> old"
  shows "c \<in> set (columns (rename_column (old, new) df))"
    and "map (\<lambda>r. r c) (rows (rename_column (old, new) df)) = map (\<lambda>r. r c) (rows df)"
  using assms by (auto simp: rename_column_def)

lemma fold_rename_kept:
  "c \<in> set (columns df) \<Longrightarrow> c \<notin> fst ` set ms \<Longrightarrow>
   c \<in> set (columns (fold rename_column ms df)) \<and>
   map (\<lambda>r. r c) (rows (fold rename_column ms df)) = map (\<lambda>r. r c) (rows df)"
proof (induction ms arbitrary: df)
  case Nil
  then show ?case by simp
next
  case (Cons m ms)
  obtain old new where m: "m = (old, new)" by (cases m)
  have ne: "c \<noteq> old" using Cons.prems(2) m by auto
  have "c \<in> set (columns (rename_column m df))"
    and eq: "map (\<lambda>r. r c) (rows (rename_column m df)) = map (\<lambda>r. r c) (rows df)"
    using rename_column_kept [OF Cons.prems(1) ne, of new] m by simp_all
  moreover have "c \<notin> fst ` set ms" using Cons.prems(2) by auto
  ultimately show ?case
    using Cons.IH [of "rename_column m df"] by simp
qed

lemma rename_column_alias:
  assumes "lbl \<in> set (columns df)" and "canon \<notin> set (columns df)"
  shows "canon \<in> set (columns (rename_column (lbl, canon) df))"
    and "map (\<lambda>r. r canon) (rows (rename_column (lbl, canon) df)) = map (\<lambda>r. r lbl) (rows df)"
  using assms by (auto simp: rename_column_def)

lemma fold_rename_alias:
  "lbl \<in> set (columns df) \<Longrightarrow> canon \<notin> set (columns df) \<Longrightarrow> lbl \<noteq> canon \<Longrightarrow>
   (lbl, canon) \<in> set ms \<Longrightarrow>
   \<forall>m \<in> set ms. m = (lbl, canon) \<or>
      (fst m \<noteq> lbl \<and> fst m \<noteq> canon \<and> snd m \<noteq> lbl \<and> snd m \<noteq> canon) \<Longrightarrow>
   canon \<in> set (columns (fold rename_column ms df)) \<and>
   map (\<lambda>r. r canon) (rows (fold rename_column ms df)) = map (\<lambda>r. r lbl) (rows df)"
proof (induction ms arbitrary: df)
  case Nil
  then show ?case by simp
next
  case (Cons m ms)
  show ?case
  proof (cases "m = (lbl, canon)")
    case True
    have a: "canon \<in> set (columns (rename_column m df))"
      and b: "map (\<lambda>r. r canon) (rows (rename_column m df)) = map (\<lambda>r. r lbl) (rows df)"
      using rename_column_alias [OF Cons.prems(1,2)] True by simp_all
    have "canon \<notin> fst ` set ms"
      using Cons.prems(3,5) by fastforce
    then show ?thesis
      using fold_rename_kept [OF a, of ms] b by simp
  next
    case False
    obtain old new where m: "m = (old, new)" by (cases m)
    have o: "old \<noteq> lbl" "old \<noteq> canon" "new \<noteq> lbl" "new \<noteq> canon"
      using Cons.prems(5) False m by auto
    have 1: "lbl \<in> set (columns (rename_column m df))"
      using rename_column_other(1) [of lbl old new df] o Cons.prems(1) m by simp
    have 2: "canon \<notin> set (columns (rename_column m df))"
      using rename_column_other(1) [of canon old new df] o Cons.prems(2) m by simp
    have 3: "map (\<lambda>r. r lbl) (rows (rename_column m df)) = map (\<lambda>r. r lbl) (rows df)"
      using rename_column_other(2) [of lbl old new df] o m by simp
    have 4: "(lbl, canon) \<in> set ms" using Cons.prems(4) False by auto
    have 5: "\<forall>m \<in> set ms. m = (lbl, canon) \<or>
      (fst m \<noteq> lbl \<and> fst m \<noteq> canon \<and> snd m \<noteq> lbl \<and> snd m \<noteq> canon)"
      using Cons.prems(5) by simp
    show ?thesis
      using Cons.IH [OF 1 2 Cons.prems(3) 4 5] 3 by simp
  qed
qed

lemma col_map_canon:
  assumes "(lbl, canon) \<in> {(''consumer_complaint_narrative'', ''Consumer complaint narrative''),
                              (''product'', ''Product'')}"
  shows "canon \<in> set (columns df) \<Longrightarrow>
           canon \<in> set (columns (fold rename_column col_map df)) \<and>
           map (\<lambda>r. r canon) (rows (fold rename_column col_map df)) = map (\<lambda>r. r canon) (rows df)"
    and "canon \<notin> set (columns df) \<Longrightarrow> lbl \<in> set (columns df) \<Longrightarrow>
           canon \<in> set (columns (fold rename_column col_map df)) \<and>
           map (\<lambda>r. r canon) (rows (fold rename_column col_map df)) = map (\<lambda>r. r lbl) (rows df)"
proof -
  show "canon \<in> set (columns df) \<Longrightarrow>
           canon \<in> set (columns (fold rename_column col_map df)) \<and>
           map (\<lambda>r. r canon) (rows (fold rename_column col_map df)) = map (\<lambda>r. r canon) (rows df)"
    using assms by (intro fold_rename_kept) (auto simp: col_map_def)
  show "canon \<notin> set (columns df) \<Longrightarrow> lbl \<in> set (columns df) \<Longrightarrow>
           canon \<in> set (columns (fold rename_column col_map df)) \<and>
           map (\<lambda>r. r canon) (rows (fold rename_column col_map df)) = map (\<lambda>r. r lbl) (rows df)"
    using assms by (intro fold_rename_alias) (auto simp: col_map_def)
qed

lemma col_map_date:
  "''Date received'' \<in> set (columns df) \<Longrightarrow>
   map (\<lambda>r. r ''Date received'') (rows (fold rename_column col_map df))
     = map (\<lambda>r. r ''Date received'') (rows df)"
  using fold_rename_kept [of "''Date received''" df col_map] by (simp add: col_map_def)


lemma first_present_pair:
  "first_present [a, b] cols = (if a \<in> set cols then Some a else if b \<in> set cols then Some b else None)"
  by (simp add: first_present_def)

lemma cells_transfer:
  assumes "map (\<lambda>r. r c) xs = map (\<lambda>r. r c') ys" and "\<forall>r \<in> set ys. P (r c')" and "r' \<in> set xs"
  shows "P (r' c)"
proof -
  have "r' c \<in> set (map (\<lambda>r. r c) xs)" using assms(3) by simp
  then have "r' c \<in> set (map (\<lambda>r. r c') ys)" using assms(1) by simp
  then show ?thesis using assms(2) by auto
qed

lemma lite_filter_out:
  assumes "lite_filter f df0 = Inr (msgs, out)"
  shows "\<exists>df. columns df = columns df0 \<and> ''Date received'' \<in> set (columns df0) \<and>
           out = fold rename_column col_map
                   (df\<lparr>rows := filter
                      (\<lambda>r. in_window (start_date f) (end_date f) (r ''Date received'') \<and>
                           (case first_present [''Consumer complaint narrative'', ''consumer_complaint_narrative''] (columns df0) of
                              Some c \<Rightarrow> (\<lambda>r. narrative_mask (r c)) | None \<Rightarrow> (\<lambda>r. True)) r \<and>
                           (case first_present [''Product'', ''product''] (columns df0) of
                              Some c \<Rightarrow> (\<lambda>r. \<not> isin_exclusions (r c)) | None \<Rightarrow> (\<lambda>r. True)) r)
                      (rows df)\<rparr>)"
proof -
  obtain df1 where s: "to_datetime_strict ''Date received'' df0 = Inr df1"
    using assms by (cases "to_datetime_strict ''Date received'' df0") (simp_all add: lite_filter_def)
  then have c1: "columns df1 = columns df0" and d: "''Date received'' \<in> set (columns df0)"
    by (auto simp: to_datetime_strict_def split: if_splits)
  obtain df2 where c: "to_datetime_coerce ''Date sent to company'' df1 = Inr df2"
    using assms s
    by (cases "to_datetime_coerce ''Date sent to company'' df1") (simp_all add: lite_filter_def)
  then have cols2: "columns df2 = columns df0"
    using c1 by (auto simp: to_datetime_coerce_def split: if_splits)
  have "out = fold rename_column col_map
                   (df2\<lparr>rows := filter
                      (\<lambda>r. in_window (start_date f) (end_date f) (r ''Date received'') \<and>
                           (case first_present [''Consumer complaint narrative'', ''consumer_complaint_narrative''] (columns df0) of
                              Some c \<Rightarrow> (\<lambda>r. narrative_mask (r c)) | None \<Rightarrow> (\<lambda>r. True)) r \<and>
                           (case first_present [''Product'', ''product''] (columns df0) of
                              Some c \<Rightarrow> (\<lambda>r. \<not> isin_exclusions (r c)) | None \<Rightarrow> (\<lambda>r. True)) r)
                      (rows df2)\<rparr>)"
    using assms s c by (simp add: lite_filter_def Let_def cols2 split: if_splits)
  then show ?thesis
    using d cols2 by (intro exI [of _ df2]) simp
qed

lemma lite_filter_post:
  assumes "lite_filter f df = Inr (msgs, out)" and "r \<in> set (rows out)"
  shows "(\<exists>t. r ''Date received'' = Ts t \<and> start_date f \<le> t \<and> t \<le> end_date f) \<and>
         (''Product'' \<in> set (columns df) \<or> ''product'' \<in> set (columns df) \<longrightarrow>
            (\<forall>s. r ''Product'' = Str s \<longrightarrow> s \<notin> set credit_exclusions)) \<and>
         (narrative_col \<in> set (columns df) \<or> ''consumer_complaint_narrative'' \<in> set (columns df) \<longrightarrow>
            r narrative_col \<noteq> NA \<and> r narrative_col \<noteq> PyNone \<and>
            (\<forall>s. r narrative_col = Str s \<longrightarrow> strip s \<noteq> []))"
proof -
  obtain d where cols: "columns d = columns df" and dr: "''Date received'' \<in> set (columns df)"
    and out: "out = fold rename_column col_map
                   (d\<lparr>rows := filter
                      (\<lambda>r. in_window (start_date f) (end_date f) (r ''Date received'') \<and>
                           (case first_present [''Consumer complaint narrative'', ''consumer_complaint_narrative''] (columns df) of
                              Some c \<Rightarrow> (\<lambda>r. narrative_mask (r c)) | None \<Rightarrow> (\<lambda>r. True)) r \<and>
                           (case first_present [''Product'', ''product''] (columns df) of
                              Some c \<Rightarrow> (\<lambda>r. \<not> isin_exclusions (r c)) | None \<Rightarrow> (\<lambda>r. True)) r)
                      (rows d)\<rparr>)"
    using lite_filter_out [OF assms(1)] by blast
  define kept where "kept = d\<lparr>rows := filter
                      (\<lambda>r. in_window (start_date f) (end_date f) (r ''Date received'') \<and>
                           (case first_present [''Consumer complaint narrative'', ''consumer_complaint_narrative''] (columns df) of
                              Some c \<Rightarrow> (\<lambda>r. narrative_mask (r c)) | None \<Rightarrow> (\<lambda>r. True)) r \<and>
                           (case first_present [''Product'', ''product''] (columns df) of
                              Some c \<Rightarrow> (\<lambda>r. \<not> isin_exclusions (r c)) | None \<Rightarrow> (\<lambda>r. True)) r)
                      (rows d)\<rparr>"
  have out': "out = fold rename_column col_map kept" using out kept_def by simp
  have kc: "columns kept = columns df" using cols by (simp add: kept_def)
  have kd: "\<forall>r \<in> set (rows kept). in_window (start_date f) (end_date f) (r ''Date received'')"
    by (simp add: kept_def)
  have date: "in_window (start_date f) (end_date f) (r ''Date received'')"
    using cells_transfer [OF col_map_date kd] dr kc assms(2) out' by simp
  have prod: "\<not> isin_exclusions (r ''Product'')"
    if "''Product'' \<in> set (columns df) \<or> ''product'' \<in> set (columns df)"
  proof (cases "''Product'' \<in> set (columns df)")
    case True
    have "\<forall>r \<in> set (rows kept). \<not> isin_exclusions (r ''Product'')"
      using True by (simp add: kept_def first_present_pair)
    then show ?thesis
      using cells_transfer [of "''Product''" "rows out" "''Product''" "rows kept" "\<lambda>c. \<not> isin_exclusions c" r]
        col_map_canon(1) [of "''product''" "''Product''" kept] True kc assms(2) out' by simp
  next
    case False
    then have a: "''product'' \<in> set (columns df)" using that by simp
    have "\<forall>r \<in> set (rows kept). \<not> isin_exclusions (r ''product'')"
      using False a by (simp add: kept_def first_present_pair)
    then show ?thesis
      using cells_transfer [of "''Product''" "rows out" "''product''" "rows kept" "\<lambda>c. \<not> isin_exclusions c" r]
        col_map_canon(2) [of "''product''" "''Product''" kept] False a kc assms(2) out' by simp
  qed
  have narr: "narrative_mask (r narrative_col)"
    if "narrative_col \<in> set (columns df) \<or> ''consumer_complaint_narrative'' \<in> set (columns df)"
  proof (cases "narrative_col \<in> set (columns df)")
    case True
    have "\<forall>r \<in> set (rows kept). narrative_mask (r narrative_col)"
      using True by (simp add: kept_def first_present_pair)
    then show ?thesis
      using cells_transfer [of narrative_col "rows out" narrative_col "rows kept" narrative_mask r]
        col_map_canon(1) [of "''consumer_complaint_narrative''" narrative_col kept] True kc assms(2) out'
      by simp
  next
    case False
    then have a: "''consumer_complaint_narrative'' \<in> set (columns df)" using that by simp
    have "\<forall>r \<in> set (rows kept). narrative_mask (r ''consumer_complaint_narrative'')"
      using False a by (simp add: kept_def first_present_pair)
    then show ?thesis
      using cells_transfer [of narrative_col "rows out" "''consumer_complaint_narrative''" "rows kept" narrative_mask r]
        col_map_canon(2) [of "''consumer_complaint_narrative''" narrative_col kept] False a kc assms(2) out'
      by simp
  qed
  show ?thesis
    using date prod narr
    by (simp add: narrative_mask_iff [symmetric] in_window_iff [symmetric] isin_exclusions_iff [symmetric])
qed

lemma complaint_cells [simp]:
  "complaint t p n ''Date received'' = Ts t"
  "complaint t p n ''Product'' = Str p"
  "complaint t p n narrative_col = n"
  "complaint t p n ''Date sent to company'' = NA"
  "complaint t p n ''product'' = NA"
  "complaint t p n ''consumer_complaint_narrative'' = NA"
  by (simp_all add: complaint_def)

lemma strip_examples: "strip ''   '' = []" "strip ''They charged a fee'' \<noteq> []"
  by (simp_all add: strip_def is_space_def)

lemma apply_filters_frame_mixed: "apply_filters fetcher_full frame_mixed = Inr frame_kept"
  by (simp add: apply_filters_def fetcher_full_def frame_mixed_def frame_kept_def df_empty_def
        in_window_def narrative_mask_def notna_def str_strip_def strip_def is_space_def
        str_accessor_def is_text_def not_comparable_def
        isin_exclusions_def credit_exclusions_def Let_def)

lemma col_map_canonical_frame:
  "fold rename_column col_map \<lparr>columns = [''Date received'', ''Date sent to company'', ''Product'', narrative_col], rows = rs\<rparr>
     = \<lparr>columns = [''Date received'', ''Date sent to company'', ''Product'', narrative_col], rows = rs\<rparr>"
  by (simp add: col_map_def rename_column_def)

lemma lite_filter_frame_mixed:
  "lite_filter lite_fetcher frame_mixed =
     Inr ([Date_range_matches 4, Narrative_matches 3, Excluded_credit_reporting 1, Final_dataset 1],
          \<lparr>columns = [''Date received'', ''Date sent to company'', ''Product'', narrative_col],
           rows = [(complaint 500 ''Mortgage'' (Str ''They charged a fee''))
             (''Date received'' := Ts 500, ''Date sent to company'' := NA)]\<rparr>)"
  by (simp add: lite_filter_def lite_fetcher_def frame_mixed_def to_datetime_strict_def
        to_datetime_coerce_def first_present_def col_map_canonical_frame coerce_cell_def
        in_window_def narrative_mask_def notna_def str_strip_def strip_def is_space_def
        str_accessor_def is_text_def not_comparable_def
        isin_exclusions_def credit_exclusions_def Let_def)


text \<open>
  C1 (as amended). Every record of the filtered output of both fetchers has its
  \<open>Date received\<close> inside the window and a \<open>Product\<close> that is not in the exclusion
  set (for \<open>RealDataFetcher\<close>: whenever the batch has a product column under one of its
  two labels). Its narrative is present and not empty after trimming whenever the narrative
  filter is required and the batch has a narrative column: in
  \<open>SearchAPIRealDataFetcher._apply_filters\<close> when lite mode is off and the column
  \<open>Consumer complaint narrative\<close> is there, in \<open>RealDataFetcher\<close> when the column is
  there under one of its two labels. Present means neither NaN nor None, and trimming is
  that of \<open>str.strip()\<close>, which takes the no-break space and the next-line character
  for white space too; a narrative cell that is no text counts as present.
\<close>

theorem filter_postcondition:
  "(apply_filters f df = Inr out \<longrightarrow> (columns df = [] \<longrightarrow> rows df = []) \<longrightarrow> r \<in> set (rows out) \<longrightarrow>
      (\<exists>t. r ''Date received'' = Ts t \<and> start_date f \<le> t \<and> t \<le> end_date f) \<and>
      (\<forall>s. r ''Product'' = Str s \<longrightarrow> s \<notin> set credit_exclusions) \<and>
      (\<not> lite_mode f \<and> narrative_col \<in> set (columns df) \<longrightarrow>
         r narrative_col \<noteq> NA \<and> r narrative_col \<noteq> PyNone \<and>
            (\<forall>s. r narrative_col = Str s \<longrightarrow> strip s \<noteq> []))) \<and>
   (lite_filter g df' = Inr (msgs, out') \<longrightarrow> r' \<in> set (rows out') \<longrightarrow>
      (\<exists>t. r' ''Date received'' = Ts t \<and> start_date g \<le> t \<and> t \<le> end_date g) \<and>
      (''Product'' \<in> set (columns df') \<or> ''product'' \<in> set (columns df') \<longrightarrow>
         (\<forall>s. r' ''Product'' = Str s \<longrightarrow> s \<notin> set credit_exclusions)) \<and>
      (narrative_col \<in> set (columns df') \<or> ''consumer_complaint_narrative'' \<in> set (columns df') \<longrightarrow>
         r' narrative_col \<noteq> NA \<and> r' narrative_col \<noteq> PyNone \<and>
            (\<forall>s. r' narrative_col = Str s \<longrightarrow> strip s \<noteq> [])))"
  using apply_filters_post [of f df out r] lite_filter_post [of g df' msgs out' r']
  by blast

theorem filter_postcondition_witness:
  "apply_filters fetcher_full frame_mixed = Inr frame_kept \<and>
   columns frame_mixed \<noteq> [] \<and>
   complaint 500 ''Mortgage'' (Str ''They charged a fee'') \<in> set (rows frame_kept) \<and>
   \<not> lite_mode fetcher_full \<and> narrative_col \<in> set (columns frame_mixed) \<and>
   (\<exists>t. complaint 500 ''Mortgage'' (Str ''They charged a fee'') ''Date received'' = Ts t \<and>
        start_date fetcher_full \<le> t \<and> t \<le> end_date fetcher_full) \<and>
   ''Mortgage'' \<notin> set credit_exclusions \<and> strip ''They charged a fee'' \<noteq> [] \<and>
   lite_filter lite_fetcher frame_mixed =
     Inr ([Date_range_matches 4, Narrative_matches 3, Excluded_credit_reporting 1, Final_dataset 1],
          \<lparr>columns = [''Date received'', ''Date sent to company'', ''Product'', narrative_col],
           rows = [(complaint 500 ''Mortgage'' (Str ''They charged a fee''))
             (''Date received'' := Ts 500, ''Date sent to company'' := NA)]\<rparr>)"
  using filter_postcondition [of fetcher_full frame_mixed frame_kept
      "complaint 500 ''Mortgage'' (Str ''They charged a fee'')" lite_fetcher frame_mixed
      "[Date_range_matches 4, Narrative_matches 3, Excluded_credit_reporting 1, Final_dataset 1]"
      "\<lparr>columns = [''Date received'', ''Date sent to company'', ''Product'', narrative_col],
        rows = [(complaint 500 ''Mortgage'' (Str ''They charged a fee''))
             (''Date received'' := Ts 500, ''Date sent to company'' := NA)]\<rparr>"
      "(complaint 500 ''Mortgage'' (Str ''They charged a fee''))
             (''Date received'' := Ts 500, ''Date sent to company'' := NA)"]
    apply_filters_frame_mixed lite_filter_frame_mixed
  by (simp add: frame_mixed_def frame_kept_def fetcher_full_def)

text \<open>
  The claim as stated fails on a batch without narrative column: with lite mode off, so
  that the narrative filter is required, the record passes although it has no narrative.
\<close>

theorem missing_narrative_counterexample:
  "\<not> lite_mode fetcher_full \<and>
   apply_filters fetcher_full frame_no_narrative = Inr frame_no_narrative \<and>
   map (\<lambda>r. r narrative_col) (rows frame_no_narrative) = [NA]"
  by (simp add: apply_filters_def fetcher_full_def frame_no_narrative_def df_empty_def
        in_window_def isin_exclusions_def credit_exclusions_def not_comparable_def Let_def)

text \<open>
  C8. In \<open>RealDataFetcher.load_and_filter_data\<close> a batch without narrative column is
  filtered with the warning \<open>WARNING: No narrative column found\<close>, while a batch
  without product column is filtered without any line about it: the lines printed are
  the date count, the narrative count and the final count.
\<close>

theorem missing_product_column_silent:
  "map_sum id fst (lite_filter lite_fetcher frame_no_product)
     = Inr [Date_range_matches 1, Narrative_matches 1, Final_dataset 1] \<and>
   map_sum id fst (lite_filter lite_fetcher frame_no_narrative)
     = Inr [Date_range_matches 1, Warning_no_narrative_column, Excluded_credit_reporting 0, Final_dataset 1]"
  by (simp add: lite_filter_def lite_fetcher_def frame_no_product_def frame_no_narrative_def
        to_datetime_strict_def to_datetime_coerce_def first_present_def coerce_cell_def
        in_window_def narrative_mask_def notna_def str_strip_def strip_def is_space_def
        str_accessor_def is_text_def not_comparable_def
        isin_exclusions_def credit_exclusions_def Let_def)

subsection \<open>Lite mode of the search fetcher\<close>















subsection \<open>Failure and empty results\<close>


















end
